theory Spec2Isabelle
  imports Complex_Main
begin

section \<open>The page manager of MaxText/page\_managers.py\<close>

text \<open>
  The class \<open>PageManager\<close> keeps five arrays in its variable collection: the pool array
  \<open>page_indices\<close> (one entry for each page, nonzero meaning in use), and for each sequence
  slot its length, its number of pages, its cursor and its row of page ids.

  The methods are modelled as their bodies are written, statement by statement, on the
  arrays that the variables hold; the arrays are lists, with one entry (one row) for each
  slot. A statement that raises for every argument is modelled as raising: the store of a
  one-entry array into a scalar place (line 123), the call of \<open>jax.lax.cond\<close> with two
  integers for its two functions (line 127), the subscript of a variable in place of its
  value (line 146). The method \<^verbatim>\<open>setup\<close> is not modelled; the state that the methods
  start from holds the arrays that \<^verbatim>\<open>setup\<close> names.

  Python integers are \<open>int\<close>. The arrays are int32: a Python integer outside the int32
  range that is stored into one raises OverflowError. A slot index is taken from the
  int32 range. The float32 computation of line 112 is a parameter of the model.
\<close>

subsection \<open>Array operations\<close>

text \<open>A negative index counts from the end, as in Python and NumPy.\<close>

definition wrap_index :: "nat \<Rightarrow> int \<Rightarrow> int" where
  "wrap_index n i = (if i < 0 then i + int n else i)"

text \<open>An index that is read out of range is clipped into the array.\<close>

definition clip_index :: "nat \<Rightarrow> int \<Rightarrow> nat" where
  "clip_index n i = nat (max 0 (min (wrap_index n i) (int n - 1)))"

text \<open>\<open>xs[i]\<close> on a (non-empty) JAX array.\<close>

definition getitem :: "'a list \<Rightarrow> int \<Rightarrow> 'a" where
  "getitem xs i = xs ! clip_index (length xs) i"

text \<open>\<open>xs.at[i].set(v)\<close>: a new array; an update out of range is dropped.\<close>

definition at_set :: "'a list \<Rightarrow> int \<Rightarrow> 'a \<Rightarrow> 'a list" where
  "at_set xs i v =
     (let j = wrap_index (length xs) i
      in if 0 \<le> j \<and> j < int (length xs) then xs[nat j := v] else xs)"

text \<open>
  \<open>xs.at[idx].set(v)\<close> for an array \<open>idx\<close> of indices: a new array with \<open>v\<close> at each of them.
\<close>

definition at_set_indices :: "'a list \<Rightarrow> int list \<Rightarrow> 'a \<Rightarrow> 'a list" where
  "at_set_indices xs idx v = fold (\<lambda>i ys. at_set ys i v) idx xs"

datatype error = AssertionError | ZeroDivisionError | OverflowError | ValueError | TypeError

text \<open>
  \<open>m.at[r, c].set(v)\<close> for two integers \<open>r\<close> and \<open>c\<close> and an array \<open>v\<close> of one axis: the place
  is a scalar, and an array of one axis is not broadcast to a scalar, whatever its length
  and the indices are. The call raises ValueError.
\<close>

definition at_set_scalar_place :: "int list list \<Rightarrow> int \<Rightarrow> int \<Rightarrow> int list \<Rightarrow> error + int list list" where
  "at_set_scalar_place m r c v = Inl ValueError"

text \<open>
  \<open>jax.lax.dynamic_update_index_in_dim(xs, v, i, axis=0)\<close>: a new array with entry (row)
  \<open>i\<close> replaced; the index is clipped into the array.
\<close>

definition dynamic_update_index_in_dim :: "'a list \<Rightarrow> 'a \<Rightarrow> int \<Rightarrow> 'a list" where
  "dynamic_update_index_in_dim xs v i = xs[clip_index (length xs) i := v]"

text \<open>
  \<open>jax.lax.dynamic_slice_in_dim(xs, start, size)\<close>: \<open>size\<close> consecutive entries; a negative
  start counts from the end, and the start is clipped so that the slice lies inside the
  array (the slice must not be longer than the array).
\<close>

definition dynamic_slice_in_dim :: "'a list \<Rightarrow> int \<Rightarrow> nat \<Rightarrow> 'a list" where
  "dynamic_slice_in_dim xs start size' =
     (let n = length xs;
          b = nat (max 0 (min (wrap_index n start) (int n - int size')))
      in take size' (drop b xs))"

text \<open>\<open>jnp.count_nonzero\<close>.\<close>

definition count_nonzero :: "int list \<Rightarrow> nat" where
  "count_nonzero xs = length (filter (\<lambda>x. x \<noteq> 0) xs)"

text \<open>
  \<open>jnp.where(cond, size=n)[0]\<close>, the index vector: the positions where \<open>cond\<close> holds, in
  ascending order, cut after \<open>n\<close> entries or filled up to \<open>n\<close> entries with 0.
\<close>

definition where_size :: "bool list \<Rightarrow> nat \<Rightarrow> int list" where
  "where_size cond n =
     take n (map int (filter (\<lambda>i. cond ! i) [0..<length cond]) @ replicate n 0)"

text \<open>A Python integer that an int32 array can take.\<close>

definition int32 :: "int \<Rightarrow> bool" where
  "int32 x = (- 2147483648 \<le> x \<and> x < 2147483648)"

text \<open>
  The ceiling of a quotient of integers. Line 112 computes
  \<open>jnp.ceil(true_length / self.page_size).astype(jnp.int32)\<close> in float32, which is this
  ceiling for small arguments and is not for large ones; the methods below take the
  function that line 112 computes as their parameter \<open>ceil_float\<close>, and \<open>ceil_div\<close> is the
  function put for it where a scenario is evaluated.
\<close>

definition ceil_div :: "int \<Rightarrow> int \<Rightarrow> int" where
  "ceil_div a b = - ((- a) div b)"

subsection \<open>Configuration and state\<close>

record page_manager =
  max_num_sequences :: nat
  max_target_length :: int
  page_size :: int
  num_pages :: int

text \<open>Line 40: \<open>self.max_target_length // self.page_size\<close>, for a page size other than 0.\<close>

definition max_pages_per_sequence :: "page_manager \<Rightarrow> int" where
  "max_pages_per_sequence pm = max_target_length pm div page_size pm"

record cache =
  page_indices :: "int list"
  seq_lengths :: "int list"
  seq_pages :: "int list"
  seq_page_cursor :: "int list"
  seq_page_indices :: "int list list"

text \<open>
  A call either returns or raises; the assignments made before an exception stay, so that
  an exception carries the state it leaves behind.
\<close>

datatype outcome = Done cache | Raised error cache

fun state_of :: "outcome \<Rightarrow> cache" where
  "state_of (Done s) = s"
| "state_of (Raised e s) = s"

text \<open>
  The arrays that \<^verbatim>\<open>setup\<close> names for the five variables: \<open>jnp.arange(num_pages)\<close> for the
  pool array (line 44) and zeros for the others.
\<close>

definition init_cache :: "page_manager \<Rightarrow> cache" where
  "init_cache pm =
     \<lparr> page_indices = map int [0..<nat (num_pages pm)],
       seq_lengths = replicate (max_num_sequences pm) 0,
       seq_pages = replicate (max_num_sequences pm) 0,
       seq_page_cursor = replicate (max_num_sequences pm) 0,
       seq_page_indices =
         replicate (max_num_sequences pm) (replicate (nat (max_pages_per_sequence pm)) 0) \<rparr>"

subsection \<open>The free-page search\<close>

text \<open>
  \<open>jnp.where((self.page_indices.value[1:]==0), size=1)[0]\<close>: an array of one entry, the
  position of the first zero in the pool array without its entry 0 (the position counts
  inside that slice), and 0 when there is none.
\<close>

definition free_page_search :: "int list \<Rightarrow> int list" where
  "free_page_search pool = where_size (map (\<lambda>p. p = 0) (drop 1 pool)) 1"

text \<open>
  The condition of \<open>assert jnp.count_nonzero(self.page_indices.value[1:]) != self.num_pages-1\<close>,
  negated.
\<close>

definition all_pages_in_use :: "page_manager \<Rightarrow> int list \<Rightarrow> bool" where
  "all_pages_in_use pm pool = (int (count_nonzero (drop 1 pool)) = num_pages pm - 1)"

subsection \<open>release\_slot\<close>

text \<open>
  The loop computes \<open>self.page_indices.value.at[page_idx].set(0)\<close> for each page of the slot
  and does not store the array it gets.
\<close>

fun release_loop :: "int \<Rightarrow> nat list \<Rightarrow> cache \<Rightarrow> cache" where
  "release_loop slot [] s = s"
| "release_loop slot (i # rest) s =
     (let page_idx = getitem (getitem (seq_page_indices s) slot) (int i);
          discarded = at_set (page_indices s) page_idx 0
      in release_loop slot rest s)"

definition release_slot :: "page_manager \<Rightarrow> int \<Rightarrow> cache \<Rightarrow> cache" where
  "release_slot pm slot s =
     (let s0 = release_loop slot [0..<nat (getitem (seq_pages s) slot)] s;
          s1 = s0\<lparr>seq_lengths := dynamic_update_index_in_dim (seq_lengths s0) 0 slot\<rparr>;
          s2 = s1\<lparr>seq_pages := dynamic_update_index_in_dim (seq_pages s1) 0 slot\<rparr>;
          s3 = s2\<lparr>seq_page_cursor := dynamic_update_index_in_dim (seq_page_cursor s2) 0 slot\<rparr>;
          empty_page_indices = replicate (nat (max_pages_per_sequence pm)) 0
      in s3\<lparr>seq_page_indices :=
              dynamic_update_index_in_dim (seq_page_indices s3) empty_page_indices slot\<rparr>)"

subsection \<open>assign\_prefill\_step\_pages\<close>

text \<open>
  The loop of the lines 119 to 123. One iteration: the assertion, the search, the update
  of the pool array whose result is not stored, and the store of the one-entry array
  \<open>page_idx\<close> into the place \<open>[slot, i]\<close>, which raises. So an iteration ends the call, with
  AssertionError or with ValueError, and the row of the slot is never written.
\<close>

fun prefill_loop :: "page_manager \<Rightarrow> int \<Rightarrow> nat list \<Rightarrow> cache \<Rightarrow> outcome" where
  "prefill_loop pm slot [] s = Done s"
| "prefill_loop pm slot (i # rest) s =
     (if all_pages_in_use pm (page_indices s) then Raised AssertionError s
      else let page_idx = free_page_search (page_indices s);
               discarded = at_set_indices (page_indices s) page_idx 1
           in case at_set_scalar_place (seq_page_indices s) slot (int i) page_idx of
                Inl e \<Rightarrow> Raised e s
              | Inr m \<Rightarrow> prefill_loop pm slot rest (s\<lparr>seq_page_indices := m\<rparr>))"

text \<open>
  The method. Line 112 divides two Python integers (ZeroDivisionError for the page size
  0) and takes the float32 ceiling \<open>ceil_float\<close>. Line 114 stores the Python integer
  \<open>true_length\<close> into an int32 array (OverflowError outside int32), line 115 the page count,
  line 116 the Python integer of line 113 (OverflowError outside int32). Then the loop
  runs.
\<close>

definition assign_prefill_step_pages ::
  "page_manager \<Rightarrow> (int \<Rightarrow> int \<Rightarrow> int) \<Rightarrow> int \<Rightarrow> int \<Rightarrow> cache \<Rightarrow> outcome" where
  "assign_prefill_step_pages pm ceil_float slot true_length s =
     (if page_size pm = 0 then Raised ZeroDivisionError s
      else
        let n = ceil_float true_length (page_size pm);
            cursor = (true_length - 1) mod page_size pm
        in if \<not> int32 true_length then Raised OverflowError s
           else
             let s1 = s\<lparr>seq_lengths :=
                         dynamic_update_index_in_dim (seq_lengths s) true_length slot\<rparr>;
                 s2 = s1\<lparr>seq_pages := dynamic_update_index_in_dim (seq_pages s1) n slot\<rparr>
             in if \<not> int32 cursor then Raised OverflowError s2
                else prefill_loop pm slot [0..<nat n]
                       (s2\<lparr>seq_page_cursor :=
                             dynamic_update_index_in_dim (seq_page_cursor s2) cursor slot\<rparr>))"

subsection \<open>assign\_decode\_step\_pages\<close>

text \<open>
  Line 127, the first statement, calls \<open>jax.lax.cond(self.seq_lengths.value > 0, 1, 0)\<close>.
  \<open>jax.lax.cond\<close> takes two functions after its condition; with the integers 1 and 0 in
  their place it raises TypeError, whatever the lengths are, before the assignment of
  line 127 is made. No other statement of the method runs.
\<close>

definition assign_decode_step_pages :: "page_manager \<Rightarrow> cache \<Rightarrow> outcome" where
  "assign_decode_step_pages pm s = Raised TypeError s"

subsection \<open>update\_prefill\_step\_pages\<close>

text \<open>
  The key and value arrays hold one vector for each token position, and the two storage
  buffers one block of \<open>page_size\<close> vectors for each page; a vector is a value of any type
  \<open>'a\<close>. A call leaves the two buffers written, or raises and leaves them as they are.
\<close>

datatype 'a storage = Written "'a list list" "'a list list" | Failed error "'a list list" "'a list list"

text \<open>
  Line 146, the first statement, is \<open>seq_pages = self.seq_pages[slot]\<close>: it subscripts the
  variable, not its value, and raises TypeError. No other statement of the method runs,
  and the buffers stay as they are.
\<close>

definition update_prefill_step_pages ::
  "page_manager \<Rightarrow> cache \<Rightarrow> 'a list list \<Rightarrow> 'a list list \<Rightarrow> 'a list \<Rightarrow> 'a list \<Rightarrow> int
     \<Rightarrow> 'a storage" where
  "update_prefill_step_pages pm s key_pages value_pages key val slot =
     Failed TypeError key_pages value_pages"

text \<open>
  The slice that line 151 names for the page \<open>i\<close> of the slot, which starts at the position
  \<open>(i - 1) * page_size\<close>.
\<close>

definition key_block :: "page_manager \<Rightarrow> 'a list \<Rightarrow> int \<Rightarrow> 'a list" where
  "key_block pm key i = dynamic_slice_in_dim key ((i - 1) * page_size pm) (nat (page_size pm))"

subsection \<open>Readings of the state\<close>

text \<open>The pages that the pool array flags as in use, and the number of free usable pages.\<close>

definition in_use_pages :: "cache \<Rightarrow> nat list" where
  "in_use_pages s = filter (\<lambda>p. page_indices s ! p \<noteq> 0) [0..<length (page_indices s)]"

definition free_page_count :: "cache \<Rightarrow> nat" where
  "free_page_count s = length (filter (\<lambda>p. p = 0) (drop 1 (page_indices s)))"

text \<open>The page ids a slot owns, and those of all active slots, slot after slot.\<close>

definition slot_pages :: "cache \<Rightarrow> nat \<Rightarrow> int list" where
  "slot_pages s k = take (nat (seq_pages s ! k)) (seq_page_indices s ! k)"

definition owned_pages :: "cache \<Rightarrow> int list" where
  "owned_pages s =
     concat (map (slot_pages s) (filter (\<lambda>k. seq_lengths s ! k > 0) [0..<length (seq_lengths s)]))"

text \<open>A sequence of calls, each one starting in the state that the one before left.\<close>

datatype call = Prefill int int | Decode | Release int

fun step :: "page_manager \<Rightarrow> (int \<Rightarrow> int \<Rightarrow> int) \<Rightarrow> call \<Rightarrow> cache \<Rightarrow> cache" where
  "step pm ceil_float (Prefill slot true_length) s =
     state_of (assign_prefill_step_pages pm ceil_float slot true_length s)"
| "step pm ceil_float Decode s = state_of (assign_decode_step_pages pm s)"
| "step pm ceil_float (Release slot) s = release_slot pm slot s"

fun run :: "page_manager \<Rightarrow> (int \<Rightarrow> int \<Rightarrow> int) \<Rightarrow> call list \<Rightarrow> cache \<Rightarrow> cache" where
  "run pm ceil_float [] s = s"
| "run pm ceil_float (c # cs) s = run pm ceil_float cs (step pm ceil_float c s)"

subsection \<open>Scenarios\<close>

text \<open>
  Scenario A of the specification: pages of 16 tokens, 10 pages, and the arrays that
  \<^verbatim>\<open>setup\<close> names.
\<close>

definition scenario_A :: page_manager where
  "scenario_A = \<lparr> max_num_sequences = 1, max_target_length = 64, page_size = 16, num_pages = 10 \<rparr>"

text \<open>
  A slot of scenario A that holds 16 tokens on one page, with the pool array that
  \<^verbatim>\<open>setup\<close> names: the next token needs a second page.
\<close>

definition full_page :: cache where
  "full_page = (init_cache scenario_A)\<lparr>seq_lengths := [16], seq_pages := [1],
     seq_page_cursor := [15]\<rparr>"

text \<open>Scenarios C and D: pages of 4 tokens, the sentinel page and two usable pages.\<close>

definition scenario_C :: page_manager where
  "scenario_C = \<lparr> max_num_sequences = 1, max_target_length = 8, page_size = 4, num_pages = 3 \<rparr>"

text \<open>Page 1 is flagged in use and page 2 is free; no slot is active.\<close>

definition one_page_free :: cache where
  "one_page_free = \<lparr> page_indices = [0, 1, 0], seq_lengths = [0], seq_pages = [0],
     seq_page_cursor = [0], seq_page_indices = [[0, 0]] \<rparr>"

text \<open>
  Slot 0 holds 4 tokens on page 1, which the pool flags in use; page 2 is free
  (\<open>boundary_slot\<close>). \<open>boundary_slot_fresh\<close> is the same slot with the pool array that
  \<^verbatim>\<open>setup\<close> names.
\<close>

definition boundary_slot :: cache where
  "boundary_slot = \<lparr> page_indices = [0, 1, 0], seq_lengths = [4], seq_pages = [1],
     seq_page_cursor = [3], seq_page_indices = [[1, 0]] \<rparr>"

definition boundary_slot_fresh :: cache where
  "boundary_slot_fresh = boundary_slot\<lparr>page_indices := [0, 1, 2]\<rparr>"



text \<open>
  A prefilled slot of 4 tokens on the pages 1 and 2, with pages of 2 tokens; the new keys
  are numbered by their token position, and the storage buffers hold three pages.
\<close>

definition scenario_W :: page_manager where
  "scenario_W = \<lparr> max_num_sequences = 1, max_target_length = 4, page_size = 2, num_pages = 3 \<rparr>"

definition prefilled :: cache where
  "prefilled = \<lparr> page_indices = [0, 1, 1], seq_lengths = [4], seq_pages = [2],
     seq_page_cursor = [1], seq_page_indices = [[1, 2]] \<rparr>"

definition new_keys :: "nat list" where
  "new_keys = [0, 1, 2, 3]"

definition new_values :: "nat list" where
  "new_values = [100, 101, 102, 103]"

definition empty_pages :: "nat list list" where
  "empty_pages = [[9, 9], [9, 9], [9, 9]]"

section \<open>Properties\<close>

subsection \<open>The array operations\<close>

lemma ceil_div_ceiling: "ceil_div a b = \<lceil>real_of_int a / real_of_int b\<rceil>"
  by (simp add: ceil_div_def ceiling_divide_eq_div)

lemma upt_nat_pos: "1 \<le> n \<Longrightarrow> [0..<nat n] = 0 # [1..<nat n]"
  by (simp add: upt_rec)

lemma upt_pos: "n \<noteq> 0 \<Longrightarrow> [0..<n] = 0 # [1..<n]"
  by (simp add: upt_rec)

lemma count_nonzero_arange: "count_nonzero (drop (Suc 0) (map int [0..<n])) = n - 1"
proof -
  have "drop (Suc 0) (map int [0..<n]) = map int [1..<n]"
    by (simp add: drop_map)
  moreover have "filter (\<lambda>x. x \<noteq> 0) (map int [1..<n]) = map int [1..<n]"
    by (rule filter_True) auto
  ultimately show ?thesis by (simp add: count_nonzero_def)
qed

text \<open>
  The slice of line 151 for the first page of a slot is the last block of the keys, and
  the slice for its second page is the first block.
\<close>

lemma key_block_one_page_back:
  "key_block scenario_W new_keys 0 = [2, 3] \<and> key_block scenario_W new_keys 1 = [0, 1]"
  by (simp add: key_block_def scenario_W_def new_keys_def dynamic_slice_in_dim_def
      wrap_index_def Let_def)

subsection \<open>The pool array is only read\<close>

lemma release_loop_id: "release_loop slot idxs s = s"
  by (induction idxs) (simp_all add: Let_def)

lemma prefill_loop_page_indices:
  "page_indices (state_of (prefill_loop pm slot idxs s)) = page_indices s"
  by (cases idxs) (simp_all add: Let_def at_set_scalar_place_def)

lemma release_slot_page_indices: "page_indices (release_slot pm slot s) = page_indices s"
  by (simp add: release_slot_def release_loop_id Let_def)

lemma prefill_page_indices:
  "page_indices (state_of (assign_prefill_step_pages pm ceil_float slot true_length s))
     = page_indices s"
  by (simp add: assign_prefill_step_pages_def prefill_loop_page_indices Let_def)

lemma decode_page_indices:
  "page_indices (state_of (assign_decode_step_pages pm s)) = page_indices s"
  by (simp add: assign_decode_step_pages_def)


text \<open>So the pages flagged in use are the same in every state that calls reach.\<close>

lemma step_page_indices: "page_indices (step pm ceil_float c s) = page_indices s"
  by (cases c) (simp_all add: prefill_page_indices decode_page_indices release_slot_page_indices)

lemma run_page_indices: "page_indices (run pm ceil_float cs s) = page_indices s"
  by (induction cs arbitrary: s) (simp_all add: step_page_indices)

lemma in_use_pages_init: "in_use_pages (init_cache pm) = [1..<nat (num_pages pm)]"
proof -
  let ?n = "nat (num_pages pm)"
  have "filter (\<lambda>p. map int [0..<?n] ! p \<noteq> 0) [0..<?n] = filter (\<lambda>p. p \<noteq> 0) [0..<?n]"
    by (rule filter_cong) auto
  also have "\<dots> = [1..<?n]"
  proof (cases "?n = 0")
    case True
    then show ?thesis by simp
  next
    case False
    then have "[0..<?n] = 0 # [1..<?n]" by (rule upt_pos)
    moreover have "filter (\<lambda>p. p \<noteq> 0) [1..<?n] = [1..<?n]"
      by (rule filter_True) auto
    ultimately show ?thesis by simp
  qed
  finally show ?thesis by (simp add: in_use_pages_def init_cache_def)
qed

lemma in_use_pages_run:
  "in_use_pages (run pm ceil_float cs (init_cache pm)) = [1..<nat (num_pages pm)]"
  using in_use_pages_init [of pm] run_page_indices [of pm ceil_float cs "init_cache pm"]
  by (simp add: in_use_pages_def)

subsection \<open>The prefill loop\<close>

text \<open>No call of the loop writes a page id: an iteration raises.\<close>

lemma prefill_loop_rows:
  "seq_page_indices (state_of (prefill_loop pm slot idxs s)) = seq_page_indices s"
  by (cases idxs) (simp_all add: Let_def at_set_scalar_place_def)

lemma prefill_loop_Done: "prefill_loop pm slot idxs s = Done s' \<Longrightarrow> idxs = [] \<and> s' = s"
  by (cases idxs) (simp_all add: Let_def at_set_scalar_place_def split: if_splits)

lemma prefill_rows:
  "seq_page_indices (state_of (assign_prefill_step_pages pm ceil_float slot true_length s))
     = seq_page_indices s"
  by (simp add: assign_prefill_step_pages_def prefill_loop_rows Let_def)

subsection \<open>The pool array that setup names\<close>

lemma all_pages_in_use_init:
  "0 < num_pages pm \<Longrightarrow> all_pages_in_use pm (page_indices (init_cache pm))"
  by (simp add: all_pages_in_use_def init_cache_def count_nonzero_arange int_ops)

lemma prefill_raises:
  assumes "all_pages_in_use pm (page_indices s)"
    and "0 < page_size pm" and "page_size pm \<le> 2147483648"
    and "1 \<le> true_length" and "true_length < 2147483648"
    and "1 \<le> ceil_float true_length (page_size pm)"
  shows "\<exists>s'. assign_prefill_step_pages pm ceil_float slot true_length s
                = Raised AssertionError s' \<and>
              seq_page_indices s' = seq_page_indices s"
proof -
  have "[0..<nat (ceil_float true_length (page_size pm))] =
             0 # [1..<nat (ceil_float true_length (page_size pm))]"
    using assms(6) by (rule upt_nat_pos)
  moreover have "int32 true_length"
    using assms(4,5) by (simp add: int32_def)
  moreover have "0 \<le> (true_length - 1) mod page_size pm"
    and "(true_length - 1) mod page_size pm < page_size pm"
    using assms(2) by simp_all
  then have "int32 ((true_length - 1) mod page_size pm)"
    using assms(3) by (simp add: int32_def)
  ultimately show ?thesis
    using assms(1,2) by (simp add: assign_prefill_step_pages_def Let_def)
qed

section \<open>The claims\<close>

text \<open>
  Claim C1 (no aliasing, and the owned pages are exactly the pages flagged in use), at the
  state of scenario A with the arrays that \<^verbatim>\<open>setup\<close> names, and at the state that a
  release and a decode step leave from it: the pool array flags the pages 1 to 9 as in
  use, and no slot owns a page. The owned pages are not the pages flagged in use.
\<close>

theorem fresh_pool_flags_pages_no_slot_owns:
  "in_use_pages (init_cache scenario_A) = [1, 2, 3, 4, 5, 6, 7, 8, 9] \<and>
   owned_pages (init_cache scenario_A) = [] \<and>
   in_use_pages (run scenario_A ceil_float [Release 0, Decode] (init_cache scenario_A))
     = [1, 2, 3, 4, 5, 6, 7, 8, 9] \<and>
   owned_pages (run scenario_A ceil_float [Release 0, Decode] (init_cache scenario_A)) = []"
proof -
  have init: "init_cache scenario_A =
      \<lparr> page_indices = [0, 1, 2, 3, 4, 5, 6, 7, 8, 9], seq_lengths = [0], seq_pages = [0],
        seq_page_cursor = [0], seq_page_indices = [[0, 0, 0, 0]] \<rparr>"
    by code_simp
  have rel: "release_slot scenario_A 0 (init_cache scenario_A) = init_cache scenario_A"
    by code_simp
  have run: "run scenario_A ceil_float [Release 0, Decode] (init_cache scenario_A)
               = init_cache scenario_A"
    by (simp add: rel assign_decode_step_pages_def)
  have "in_use_pages (init_cache scenario_A) = [1, 2, 3, 4, 5, 6, 7, 8, 9]"
    by code_simp
  moreover have "owned_pages (init_cache scenario_A) = []"
    by code_simp
  ultimately show ?thesis
    by (simp only: run simp_thms)
qed

text \<open>
  Claim C2: the pool array \<open>page_indices\<close> after a call of \<open>release_slot\<close>, of
  \<open>assign_prefill_step_pages\<close> or of \<open>assign_decode_step_pages\<close> is the pool array before the
  call, in every state, for every slot and length, whether the call returns or raises.
\<close>

theorem page_indices_never_written:
  "page_indices (release_slot pm slot s) = page_indices s \<and>
   page_indices (state_of (assign_prefill_step_pages pm ceil_float slot true_length s))
     = page_indices s \<and>
   page_indices (state_of (assign_decode_step_pages pm s)) = page_indices s"
  by (simp add: release_slot_page_indices prefill_page_indices decode_page_indices)


text \<open>
  Claim C4 (first fit: the first free usable page is recorded for the slot and marked in
  use, page 0 is never allocated), at scenario C with page 1 in use and page 2 free, for
  a prefill of one token (one page, by line 112). The search of line 121 gives 1, the
  position of the free page inside the slice and the id of the page in use; the store of
  line 123 raises ValueError. No page id is recorded for the slot, and the pool array
  stays as it was.
\<close>

theorem prefill_with_free_page_records_nothing:
  assumes "ceil_float 1 4 = 1"
  shows "free_page_search (page_indices one_page_free) = [1] \<and>
         assign_prefill_step_pages scenario_C ceil_float 0 1 one_page_free =
           Raised ValueError
             \<lparr> page_indices = [0, 1, 0], seq_lengths = [1], seq_pages = [1],
               seq_page_cursor = [0], seq_page_indices = [[0, 0]] \<rparr>"
  using assms
  by (simp add: assign_prefill_step_pages_def scenario_C_def one_page_free_def int32_def
      all_pages_in_use_def count_nonzero_def free_page_search_def where_size_def
      at_set_scalar_place_def dynamic_update_index_in_dim_def clip_index_def wrap_index_def
      Let_def upt_rec)

text \<open>The exact ceiling of 1 / 4 is 1, the page count of the scenario.\<close>

theorem prefill_with_free_page_records_nothing_witness:
  "ceil_div 1 4 = 1 \<and>
   free_page_search (page_indices one_page_free) = [1] \<and>
   assign_prefill_step_pages scenario_C ceil_div 0 1 one_page_free =
     Raised ValueError
       \<lparr> page_indices = [0, 1, 0], seq_lengths = [1], seq_pages = [1],
         seq_page_cursor = [0], seq_page_indices = [[0, 0]] \<rparr>"
proof -
  have h: "ceil_div 1 4 = 1" by (simp add: ceil_div_def)
  from prefill_with_free_page_records_nothing [where ceil_float = ceil_div, OF h] h show ?thesis by simp
qed

text \<open>
  Claim C5 (the derived fields, and scenario A: a prefill of 20 tokens gives 2 pages,
  cursor 3 and two distinct page ids from 1 to 9), at scenario A with the arrays that
  \<^verbatim>\<open>setup\<close> names and the page count 2 of line 112: the prefill stores the page count 2
  and the cursor 3 and raises the assertion in its first iteration; the row of the slot
  holds no page id from 1 to 9.
\<close>

theorem scenario_A_prefill_assigns_no_pages:
  assumes "ceil_float 20 16 = 2"
  shows "assign_prefill_step_pages scenario_A ceil_float 0 20 (init_cache scenario_A) =
           Raised AssertionError
             \<lparr> page_indices = [0, 1, 2, 3, 4, 5, 6, 7, 8, 9], seq_lengths = [20],
               seq_pages = [2], seq_page_cursor = [3], seq_page_indices = [[0, 0, 0, 0]] \<rparr>"
  using assms
  by (simp add: assign_prefill_step_pages_def scenario_A_def init_cache_def int32_def
      max_pages_per_sequence_def all_pages_in_use_def count_nonzero_def
      dynamic_update_index_in_dim_def clip_index_def wrap_index_def Let_def upt_rec
      numeral_eq_Suc)

text \<open>The exact ceiling of 20 / 16 is 2, the page count of the scenario.\<close>

theorem scenario_A_prefill_assigns_no_pages_witness:
  "ceil_div 20 16 = 2 \<and>
   assign_prefill_step_pages scenario_A ceil_div 0 20 (init_cache scenario_A) =
     Raised AssertionError
       \<lparr> page_indices = [0, 1, 2, 3, 4, 5, 6, 7, 8, 9], seq_lengths = [20],
         seq_pages = [2], seq_page_cursor = [3], seq_page_indices = [[0, 0, 0, 0]] \<rparr>"
proof -
  have h: "ceil_div 20 16 = 2" by (simp add: ceil_div_def)
  from scenario_A_prefill_assigns_no_pages [where ceil_float = ceil_div, OF h] h show ?thesis by simp
qed

text \<open>
  Claim C6 (a decode step: one more token for each active slot, and one new page at
  position \<open>seq_pages - 1\<close> for a slot that crosses a page boundary), at scenario C with a
  slot of 4 tokens on page 1, with page 2 free and with the pool array that \<^verbatim>\<open>setup\<close>
  names: the step raises TypeError at its first statement; the length stays 4, the page
  count stays 1, and position 1 of the row stays 0.
\<close>

theorem decode_boundary_raises_type_error:
  "assign_decode_step_pages scenario_C boundary_slot =
     Raised TypeError
       \<lparr> page_indices = [0, 1, 0], seq_lengths = [4], seq_pages = [1],
         seq_page_cursor = [3], seq_page_indices = [[1, 0]] \<rparr> \<and>
   assign_decode_step_pages scenario_C boundary_slot_fresh =
     Raised TypeError
       \<lparr> page_indices = [0, 1, 2], seq_lengths = [4], seq_pages = [1],
         seq_page_cursor = [3], seq_page_indices = [[1, 0]] \<rparr>"
  by (simp add: assign_decode_step_pages_def boundary_slot_def boundary_slot_fresh_def)

text \<open>
  Claim C7 (scenario D: with one free usable page a prefill that needs two pages fails
  with the exhaustion condition and leaves no page with the slot), at scenario C with
  page 1 in use and page 2 free, for a prefill of 5 tokens (two pages, by line 112): the
  pool has one free usable page, the assertion of the first iteration passes, and the
  store of line 123 raises ValueError. The call fails, not with the assertion; the length
  5 and the page count 2 are stored, and the row of the slot holds no page.
\<close>

theorem one_free_page_prefill_of_two_raises_value_error:
  assumes "ceil_float 5 4 = 2"
  shows "free_page_count one_page_free = 1 \<and>
         assign_prefill_step_pages scenario_C ceil_float 0 5 one_page_free =
           Raised ValueError
             \<lparr> page_indices = [0, 1, 0], seq_lengths = [5], seq_pages = [2],
               seq_page_cursor = [0], seq_page_indices = [[0, 0]] \<rparr>"
  using assms
  by (simp add: assign_prefill_step_pages_def scenario_C_def one_page_free_def int32_def
      free_page_count_def all_pages_in_use_def count_nonzero_def free_page_search_def
      where_size_def at_set_scalar_place_def dynamic_update_index_in_dim_def clip_index_def
      wrap_index_def Let_def upt_rec)

text \<open>The exact ceiling of 5 / 4 is 2, the page count of the scenario.\<close>

theorem one_free_page_prefill_of_two_raises_value_error_witness:
  "ceil_div 5 4 = 2 \<and>
   free_page_count one_page_free = 1 \<and>
   assign_prefill_step_pages scenario_C ceil_div 0 5 one_page_free =
     Raised ValueError
       \<lparr> page_indices = [0, 1, 0], seq_lengths = [5], seq_pages = [2],
         seq_page_cursor = [0], seq_page_indices = [[0, 0]] \<rparr>"
proof -
  have h: "ceil_div 5 4 = 2" by (simp add: ceil_div_def)
  from one_free_page_prefill_of_two_raises_value_error [where ceil_float = ceil_div, OF h] h show ?thesis by simp
qed

text \<open>
  Claim C8 (prefill addressing: page \<open>i\<close> of the slot receives the token positions from
  \<open>i * page_size\<close> to \<open>(i + 1) * page_size\<close>), at a slot of 4 tokens on the pages 1 and 2
  with pages of 2 tokens: \<open>update_prefill_step_pages\<close> raises TypeError at its first
  statement and writes no page; the two buffers stay as they were.
\<close>

theorem update_prefill_step_pages_writes_nothing:
  "update_prefill_step_pages scenario_W prefilled empty_pages empty_pages new_keys new_values 0 =
     Failed TypeError [[9, 9], [9, 9], [9, 9]] [[9, 9], [9, 9], [9, 9]]"
  by (simp add: update_prefill_step_pages_def empty_pages_def)



text \<open>
  Claim C10 (with the pool array that \<^verbatim>\<open>setup\<close> names, every prefill of at least one
  token and every decode step that needs a new page fails the assertion before it assigns
  a page), at scenario A. The decode step of a slot that holds 16 tokens on one page
  needs a second page; it raises TypeError, not the assertion. A prefill of \<open>2^31\<close> tokens
  raises OverflowError at line 114, not the assertion, whatever line 112 computes.
\<close>

theorem fresh_pool_decode_and_long_prefill_raise_otherwise:
  "assign_decode_step_pages scenario_A full_page = Raised TypeError full_page \<and>
   (\<forall>s'. assign_decode_step_pages scenario_A full_page \<noteq> Raised AssertionError s') \<and>
   (\<forall>ceil_float. assign_prefill_step_pages scenario_A ceil_float 0 2147483648 (init_cache scenario_A)
      = Raised OverflowError (init_cache scenario_A))"
  by (simp add: assign_decode_step_pages_def assign_prefill_step_pages_def scenario_A_def
      int32_def Let_def)

text \<open>
  Claim C10 as amended: the pool array that \<^verbatim>\<open>setup\<close> names is \<open>0, 1, ..., num_pages - 1\<close>,
  so all \<open>num_pages - 1\<close> entries after entry 0 are nonzero. In a state with that pool
  array, for a configuration with at least one page and a page size from 1 to \<open>2^31\<close>,
  every \<open>assign_prefill_step_pages\<close> with a slot index that int32 holds, a length from 1
  to \<open>2^31 - 1\<close> and a page count of at least 1 raises the assertion in its first
  iteration, and the page ids of the slots are those from before the call.
\<close>

theorem fresh_pool_every_prefill_raises:
  assumes "0 < num_pages pm" and "0 < page_size pm" and "page_size pm \<le> 2147483648"
    and "1 \<le> true_length" and "true_length < 2147483648"
    and "1 \<le> ceil_float true_length (page_size pm)"
    and "page_indices s = page_indices (init_cache pm)"
    and "int32 slot"
  shows "page_indices (init_cache pm) = map int [0..<nat (num_pages pm)] \<and>
         int (count_nonzero (drop 1 (page_indices (init_cache pm)))) = num_pages pm - 1 \<and>
         list_all (\<lambda>p. p \<noteq> 0) (drop 1 (page_indices (init_cache pm))) \<and>
         (\<exists>s'. assign_prefill_step_pages pm ceil_float slot true_length s
                  = Raised AssertionError s' \<and>
               seq_page_indices s' = seq_page_indices s)"
proof -
  have full: "all_pages_in_use pm (page_indices s)"
    using assms(1,7) by (simp add: all_pages_in_use_init)
  have b: "page_indices (init_cache pm) = map int [0..<nat (num_pages pm)]"
    by (simp add: init_cache_def)
  have c: "int (count_nonzero (drop 1 (page_indices (init_cache pm)))) = num_pages pm - 1"
    using all_pages_in_use_init [OF assms(1)] by (simp add: all_pages_in_use_def)
  have "drop (Suc 0) (map int [0..<nat (num_pages pm)]) = map int [1..<nat (num_pages pm)]"
    by (simp add: drop_map)
  then have d: "list_all (\<lambda>p. p \<noteq> 0) (drop 1 (page_indices (init_cache pm)))"
    by (simp add: b list_all_iff)
  have e: "\<exists>s'. assign_prefill_step_pages pm ceil_float slot true_length s
                  = Raised AssertionError s' \<and>
               seq_page_indices s' = seq_page_indices s"
    using full assms(2,3,4,5,6) by (rule prefill_raises)
  from b c d e show ?thesis by blast
qed

text \<open>
  In scenario A, with the arrays that \<^verbatim>\<open>setup\<close> names and the exact ceiling 2 of 20 / 16
  for the page count: the prefill of 20 tokens raises the assertion.
\<close>

theorem fresh_pool_every_prefill_raises_witness:
  "0 < num_pages scenario_A \<and> 0 < page_size scenario_A \<and>
   page_size scenario_A \<le> 2147483648 \<and> (1::int) \<le> 20 \<and> (20::int) < 2147483648 \<and>
   1 \<le> ceil_div 20 (page_size scenario_A) \<and> int32 0 \<and>
   (\<exists>s'. assign_prefill_step_pages scenario_A ceil_div 0 20 (init_cache scenario_A)
            = Raised AssertionError s' \<and>
         seq_page_indices s' = seq_page_indices (init_cache scenario_A))"
proof -
  have h1: "0 < num_pages scenario_A" by (simp add: scenario_A_def)
  have h2: "0 < page_size scenario_A" by (simp add: scenario_A_def)
  have h3: "page_size scenario_A \<le> 2147483648" by (simp add: scenario_A_def)
  have h4: "(1::int) \<le> 20" by simp
  have h5: "(20::int) < 2147483648" by simp
  have h6: "1 \<le> ceil_div 20 (page_size scenario_A)"
    by (simp add: scenario_A_def ceil_div_def)
  have h7: "int32 0" by (simp add: int32_def)
  from fresh_pool_every_prefill_raises
      [where ceil_float = ceil_div and slot = 0, OF h1 h2 h3 h4 h5 h6 refl h7]
    h1 h2 h3 h4 h5 h6 h7 show ?thesis
    by blast
qed

end
